theory Spec2Isabelle
  imports Complex_Main "HOL-Library.AList"
begin

section \<open>The controller harness of \<^verbatim>\<open>asteroids/fuzzy_asteroids.py\<close>\<close>

text \<open>
  The file defines \<^verbatim>\<open>FuzzyAsteroidGame\<close> (a subclass of the engine's
  \<^verbatim>\<open>AsteroidGame\<close>), its training variant \<^verbatim>\<open>TrainerEnvironment\<close> and the function
  \<^verbatim>\<open>evaluate_controller\<close>. The engine (\<^verbatim>\<open>asteroids.game\<close>) and the ship mediator
  (\<^verbatim>\<open>asteroids.fuzzy_controller.SpaceShip\<close>) are other modules: what the harness calls of
  them is a parameter of the definitions below, what it reads or writes of them a field.
\<close>

subsection \<open>Exceptions and outcomes\<close>

text \<open>
  The exception classes that occur. \<^verbatim>\<open>KeyboardInterrupt\<close> derives from
  \<^verbatim>\<open>BaseException\<close> only, so \<^verbatim>\<open>except Exception\<close> does not catch it.
\<close>

datatype exn =
  ValueError string
  | TypeError string
  | AttributeError string
  | RuntimeError string
  | KeyboardInterrupt

definition is_Exception :: "exn \<Rightarrow> bool" where
  "is_Exception e = (case e of KeyboardInterrupt \<Rightarrow> False | _ \<Rightarrow> True)"

text \<open>
  A method either returns or raises; in both cases the object is left in some state, since
  what was assigned before a \<^verbatim>\<open>raise\<close> stays assigned.
\<close>

datatype 's outcome = Returned 's | Raised exn 's

subsection \<open>Settings dictionaries and the store that holds them\<close>

datatype pyval = PyBool bool | PyInt int | PyStr string

text \<open>
  A dictionary keeps its keys in insertion order; the store maps an address (an index)
  to the dictionary object that lives there, so that two names for one object are one
  address.
\<close>

type_synonym dict = "(string \<times> pyval) list"

type_synonym heap = "dict list"

text \<open>\<^verbatim>\<open>d.update(other)\<close>: the items of \<^verbatim>\<open>other\<close> are assigned in order.\<close>

fun dict_update :: "dict \<Rightarrow> dict \<Rightarrow> dict" where
  "dict_update d [] = d"
| "dict_update d ((k, v) # kvs) = dict_update (AList.update k v d) kvs"

text \<open>
  \<^verbatim>\<open>settings = settings if settings else {}\<close>: \<^verbatim>\<open>None\<close> and the empty dictionary
  are falsy, and then the name is bound to a new, empty dictionary.
\<close>

definition settings_or_new :: "nat option \<Rightarrow> heap \<Rightarrow> nat \<times> heap" where
  "settings_or_new settings h =
     (case settings of
        None \<Rightarrow> (length h, h @ [[]])
      | Some r \<Rightarrow> if h ! r \<noteq> [] then (r, h) else (length h, h @ [[]]))"

subsection \<open>The engine's objects, as far as the harness touches them\<close>

record 'a Sprite =
  state :: 'a

record ShipSprite =
  turn_rate :: real
  thrust :: real

text \<open>
  The attributes of \<^verbatim>\<open>AsteroidGame\<close> the harness reads or writes:
  \<^verbatim>\<open>self.score.frame_count\<close>, \<^verbatim>\<open>self.get_size()\<close>, \<^verbatim>\<open>self.asteroid_list\<close>,
  \<^verbatim>\<open>self.player_sprite\<close> and \<^verbatim>\<open>self.active_key_presses\<close>; \<open>other\<close> is the rest.

  Modelled from the spec: the field \<open>bullet_list\<close>, the engine's list of live bullets.
  The engine is not among the sources and the harness never reads such a list; the spec's
  section 6 says that the engine exposes its enumerable live bullet entities, each with a
  state as the asteroids have.
\<close>

record ('a, 'x) AsteroidGame =
  frame_count :: nat
  get_size :: "nat \<times> nat"
  asteroid_list :: "'a Sprite list"
  bullet_list :: "'a Sprite list"
  player_sprite :: ShipSprite
  active_key_presses :: "nat list"
  other :: 'x

text \<open>
  \<^verbatim>\<open>SpaceShip\<close>, the object handed to the controller: the three attributes
  \<^verbatim>\<open>call_stored_controller\<close> reads back from it.
\<close>

record SpaceShip =
  turn_rate :: real
  thrust :: real
  fire_bullet :: bool

text \<open>The dictionary the property \<^verbatim>\<open>data\<close> returns; its four keys are the fields.\<close>

record 'a snapshot =
  frame :: nat
  map_dimensions :: "nat \<times> nat"
  asteroids :: "'a list"
  bullets :: "'a list"

subsection \<open>Controllers\<close>

text \<open>
  A controller is any Python object. The harness uses three things of it.
  \<^item> Its truth value. Each time it is asked for, Python runs the object's
    \<^verbatim>\<open>__bool__\<close> (or \<^verbatim>\<open>__len__\<close>): code of the controller, which reads the controller's
    state, may change it, and returns the truth value or raises. \<open>truth\<close> is that method:
    from the state before to the result and the state after. The state \<open>'c\<close> stands for
    all that the controller's methods read and write besides their arguments. An object
    that defines neither method is true and stays as it is: \<open>\<lambda>x. (Inr True, x)\<close>.
  \<^item> Whether it has an attribute \<^verbatim>\<open>actions\<close>.
  \<^item> What calling \<^verbatim>\<open>actions\<close> does: the call may change the controller's state and the
    ship it was handed, and it returns or raises.
\<close>

record ('c, 'a) controller_obj =
  truth :: "'c \<Rightarrow> (exn + bool) \<times> 'c"
  actions_attr :: "('c \<Rightarrow> SpaceShip \<Rightarrow> 'a snapshot \<Rightarrow> exn option \<times> 'c \<times> SpaceShip) option"
  inner :: 'c

text \<open>
  \<^verbatim>\<open>bool(controller)\<close>, as \<^verbatim>\<open>not controller\<close> and \<^verbatim>\<open>if self.controller:\<close> compute it:
  the result, and the controller as the computation leaves it. \<^verbatim>\<open>None\<close> is the absent
  controller: false, and without any \<^verbatim>\<open>actions\<close>.
\<close>

definition py_bool ::
  "('c, 'a) controller_obj option \<Rightarrow> (exn + bool) \<times> ('c, 'a) controller_obj option" where
  "py_bool c =
     (case c of
        None \<Rightarrow> (Inr False, None)
      | Some ob \<Rightarrow> (case truth ob (inner ob) of (r, c') \<Rightarrow> (r, Some (ob\<lparr>inner := c'\<rparr>))))"

definition hasattr_actions :: "('c, 'a) controller_obj option \<Rightarrow> bool" where
  "hasattr_actions c = (case c of None \<Rightarrow> False | Some ob \<Rightarrow> actions_attr ob \<noteq> None)"

subsection \<open>\<^verbatim>\<open>FuzzyAsteroidGame\<close>\<close>

record ('c, 'a, 'x) FuzzyAsteroidGame =
  controller :: "('c, 'a) controller_obj option"
  engine :: "('a, 'x) AsteroidGame"
  time_elapsed :: real

text \<open>
  \<^verbatim>\<open>__init__\<close> (lines 25 to 42). \<open>controller_arg\<close> is the argument
  \<^verbatim>\<open>controller\<close>, stored as the attribute \<open>controller\<close>: one object under two names, so
  the game holds the controller as the test on line 32 leaves it. An exception raised
  while line 32 computes the truth value leaves the constructor. \<open>AsteroidGame_init\<close> is
  the parent's constructor: it is handed the settings object and the scenario, and sets
  the inherited attributes.
\<close>

definition FuzzyAsteroidGame_init ::
  "(nat \<Rightarrow> 'scn \<Rightarrow> heap \<Rightarrow> ('a, 'x) AsteroidGame \<times> heap) \<Rightarrow>
   ('c, 'a) controller_obj option \<Rightarrow> nat option \<Rightarrow> 'scn \<Rightarrow> heap \<Rightarrow>
   (exn + ('c, 'a, 'x) FuzzyAsteroidGame) \<times> heap" where
  "FuzzyAsteroidGame_init AsteroidGame_init controller_arg settings scenario h =
     (case settings_or_new settings h of (settings, h) \<Rightarrow>
        (case py_bool controller_arg of
           (Inl e, c) \<Rightarrow> (Inl e, h)
         | (Inr b, c) \<Rightarrow>
             if \<not> b then
               (Inl (ValueError ''No controller object given to the FuzzyAsteroid() constructor''), h)
             else if \<not> hasattr_actions c then
               (Inl (TypeError (''Controller class given to FuzzyAsteroidGame doesn't have a method called'' @
                                ''``actions()`` which is used to control the Ship'')), h)
             else
               (case AsteroidGame_init settings scenario h of (e, h) \<Rightarrow>
                  (Inr \<lparr>controller = c, engine = e, time_elapsed = 0\<rparr>, h))))"

text \<open>The property \<^verbatim>\<open>data\<close> (lines 44 to 52).\<close>

definition data :: "('c, 'a, 'x) FuzzyAsteroidGame \<Rightarrow> 'a snapshot" where
  "data g =
     \<lparr>frame = frame_count (engine g),
      map_dimensions = get_size (engine g),
      asteroids = map state (asteroid_list (engine g)),
      bullets = map state (asteroid_list (engine g))\<rparr>"

text \<open>
  The body of the guard in \<^verbatim>\<open>call_stored_controller\<close> (lines 59 to 72), for the stored
  controller object \<open>c\<close>. \<open>SpaceShip_init\<close> is the constructor
  \<^verbatim>\<open>SpaceShip(self.player_sprite)\<close>, \<open>AsteroidGame_fire_bullet\<close> the engine's method
  \<^verbatim>\<open>self.fire_bullet()\<close>. The call of \<^verbatim>\<open>actions\<close> on line 64 stands in no
  \<^verbatim>\<open>try\<close> and no \<^verbatim>\<open>with\<close> block: when it raises, lines 67 to 72 do not run and the
  exception leaves the method.
\<close>

definition controller_block ::
  "(ShipSprite \<Rightarrow> SpaceShip) \<Rightarrow>
   (('c, 'a, 'x) FuzzyAsteroidGame \<Rightarrow> ('c, 'a, 'x) FuzzyAsteroidGame) \<Rightarrow>
   ('c, 'a) controller_obj \<Rightarrow>
   ('c, 'a, 'x) FuzzyAsteroidGame \<Rightarrow> ('c, 'a, 'x) FuzzyAsteroidGame outcome" where
  "controller_block SpaceShip_init AsteroidGame_fire_bullet c g =
     (let ship = SpaceShip_init (player_sprite (engine g)) in
      case actions_attr c of
        None \<Rightarrow> Raised (AttributeError ''actions'') g
      | Some actions \<Rightarrow>
          (case actions (inner c) ship (data g) of
             (Some e, c', ship) \<Rightarrow> Raised e (g\<lparr>controller := Some (c\<lparr>inner := c'\<rparr>)\<rparr>)
           | (None, c', ship) \<Rightarrow>
               let g = g\<lparr>controller := Some (c\<lparr>inner := c'\<rparr>)\<rparr>;
                   g = g\<lparr>engine := (engine g)\<lparr>player_sprite :=
                         (player_sprite (engine g))\<lparr>ShipSprite.turn_rate := SpaceShip.turn_rate ship\<rparr>\<rparr>\<rparr>;
                   g = g\<lparr>engine := (engine g)\<lparr>player_sprite :=
                         (player_sprite (engine g))\<lparr>ShipSprite.thrust := SpaceShip.thrust ship\<rparr>\<rparr>\<rparr>
               in if fire_bullet ship then Returned (AsteroidGame_fire_bullet g)
                  else Returned g))"

text \<open>
  \<^verbatim>\<open>call_stored_controller\<close> (lines 54 to 72): the guard \<^verbatim>\<open>if self.controller:\<close>
  computes the truth value of the stored controller anew, in every call; the block runs
  on the controller as that computation leaves it.
\<close>

definition call_stored_controller ::
  "(ShipSprite \<Rightarrow> SpaceShip) \<Rightarrow>
   (('c, 'a, 'x) FuzzyAsteroidGame \<Rightarrow> ('c, 'a, 'x) FuzzyAsteroidGame) \<Rightarrow>
   ('c, 'a, 'x) FuzzyAsteroidGame \<Rightarrow> ('c, 'a, 'x) FuzzyAsteroidGame outcome" where
  "call_stored_controller SpaceShip_init AsteroidGame_fire_bullet g =
     (case controller g of
        None \<Rightarrow> Returned g
      | Some c \<Rightarrow>
          (case truth c (inner c) of
             (Inl e, c') \<Rightarrow> Raised e (g\<lparr>controller := Some (c\<lparr>inner := c'\<rparr>)\<rparr>)
           | (Inr b, c') \<Rightarrow>
               let c = c\<lparr>inner := c'\<rparr>;
                   g = g\<lparr>controller := Some c\<rparr>
               in if b then controller_block SpaceShip_init AsteroidGame_fire_bullet c g
                  else Returned g))"

text \<open>
  \<^verbatim>\<open>on_update\<close> (lines 74 to 79). \<open>AsteroidGame_on_update\<close> is the parent's method,
  which advances the simulation by one frame.
\<close>

definition on_update ::
  "(ShipSprite \<Rightarrow> SpaceShip) \<Rightarrow>
   (('c, 'a, 'x) FuzzyAsteroidGame \<Rightarrow> ('c, 'a, 'x) FuzzyAsteroidGame) \<Rightarrow>
   (real \<Rightarrow> ('c, 'a, 'x) FuzzyAsteroidGame \<Rightarrow> ('c, 'a, 'x) FuzzyAsteroidGame) \<Rightarrow>
   real \<Rightarrow> ('c, 'a, 'x) FuzzyAsteroidGame \<Rightarrow> ('c, 'a, 'x) FuzzyAsteroidGame outcome" where
  "on_update SpaceShip_init AsteroidGame_fire_bullet AsteroidGame_on_update delta_time g =
     (if active_key_presses (engine g) = [] then
        (case call_stored_controller SpaceShip_init AsteroidGame_fire_bullet g of
           Raised e g \<Rightarrow> Raised e g
         | Returned g \<Rightarrow> Returned (AsteroidGame_on_update delta_time g))
      else Returned (AsteroidGame_on_update delta_time g))"

text \<open>
  The context manager \<^verbatim>\<open>_timer_interface\<close> (lines 81 to 98) around a block \<open>body\<close>;
  \<open>t0\<close> and \<open>t1\<close> are what the two calls of \<^verbatim>\<open>time.perf_counter()\<close> return. An
  exception of class \<^verbatim>\<open>Exception\<close> is printed and swallowed, any other passes; the
  \<^verbatim>\<open>finally\<close> clause stores \<^verbatim>\<open>t1 - t0 / float(1E6)\<close> either way. No line of the
  file enters this context manager.
\<close>

definition timer_interface ::
  "real \<Rightarrow> real \<Rightarrow>
   (('c, 'a, 'x) FuzzyAsteroidGame \<Rightarrow> ('c, 'a, 'x) FuzzyAsteroidGame outcome) \<Rightarrow>
   ('c, 'a, 'x) FuzzyAsteroidGame \<Rightarrow> ('c, 'a, 'x) FuzzyAsteroidGame outcome" where
  "timer_interface t0 t1 body g =
     (case body g of
        Returned g \<Rightarrow> Returned (g\<lparr>time_elapsed := t1 - t0 / 1000000\<rparr>)
      | Raised e g \<Rightarrow>
          if is_Exception e then Returned (g\<lparr>time_elapsed := t1 - t0 / 1000000\<rparr>)
          else Raised e (g\<lparr>time_elapsed := t1 - t0 / 1000000\<rparr>))"

subsection \<open>\<^verbatim>\<open>TrainerEnvironment\<close>\<close>

definition training_overrides :: dict where
  "training_overrides =
     [(''sound_on'', PyBool False),
      (''graphics_on'', PyBool False),
      (''real_time_multiplier'', PyInt 0),
      (''prints'', PyBool True),
      (''allow_key_presses'', PyBool False)]"

text \<open>\<^verbatim>\<open>__init__\<close> (lines 109 to 122).\<close>

definition TrainerEnvironment_init ::
  "(nat \<Rightarrow> 'scn \<Rightarrow> heap \<Rightarrow> ('a, 'x) AsteroidGame \<times> heap) \<Rightarrow>
   ('c, 'a) controller_obj option \<Rightarrow> nat option \<Rightarrow> 'scn \<Rightarrow> heap \<Rightarrow>
   (exn + ('c, 'a, 'x) FuzzyAsteroidGame) \<times> heap" where
  "TrainerEnvironment_init AsteroidGame_init controller_arg settings scenario h =
     (case settings_or_new settings h of (settings, h) \<Rightarrow>
        let h = h[settings := dict_update (h ! settings) training_overrides]
        in FuzzyAsteroidGame_init AsteroidGame_init controller_arg (Some settings) scenario h)"

text \<open>\<^verbatim>\<open>on_key_press\<close> and \<^verbatim>\<open>on_key_release\<close> (lines 124 to 130): \<^verbatim>\<open>pass\<close>.\<close>

definition TrainerEnvironment_on_key_press ::
  "nat \<Rightarrow> nat \<Rightarrow> ('c, 'a, 'x) FuzzyAsteroidGame \<Rightarrow> ('c, 'a, 'x) FuzzyAsteroidGame" where
  "TrainerEnvironment_on_key_press symbol modifiers g = g"

definition TrainerEnvironment_on_key_release ::
  "nat \<Rightarrow> nat \<Rightarrow> ('c, 'a, 'x) FuzzyAsteroidGame \<Rightarrow> ('c, 'a, 'x) FuzzyAsteroidGame" where
  "TrainerEnvironment_on_key_release symbol modifiers g = g"

subsection \<open>\<^verbatim>\<open>evaluate_controller\<close>\<close>

text \<open>
  Lines 142 to 156. \<open>run_single_game\<close> is the engine's method that runs the frames of one
  game and returns the score, or raises.
\<close>

definition evaluate_controller ::
  "(nat \<Rightarrow> 'scn \<Rightarrow> heap \<Rightarrow> ('a, 'x) AsteroidGame \<times> heap) \<Rightarrow>
   (('c, 'a, 'x) FuzzyAsteroidGame \<Rightarrow> exn + 'score) \<Rightarrow>
   ('c, 'a) controller_obj option \<Rightarrow> nat option \<Rightarrow> 'scn \<Rightarrow> heap \<Rightarrow>
   (exn + 'score) \<times> heap" where
  "evaluate_controller AsteroidGame_init run_single_game controller_arg settings scenario h =
     (case FuzzyAsteroidGame_init AsteroidGame_init controller_arg settings scenario h of
        (Inl e, h) \<Rightarrow> (Inl e, h)
      | (Inr game, h) \<Rightarrow> (run_single_game game, h))"


fun outcome_state :: "'s outcome \<Rightarrow> 's" where
  "outcome_state (Returned g) = g"
| "outcome_state (Raised e g) = g"

text \<open>A settings argument is \<^verbatim>\<open>None\<close> or the address of a dictionary of the store.\<close>

definition live :: "nat option \<Rightarrow> heap \<Rightarrow> bool" where
  "live settings h = (case settings of None \<Rightarrow> True | Some r \<Rightarrow> r < length h)"

subsection \<open>A small engine and some controllers, to run the definitions on\<close>

text \<open>
  The engine of the examples: the mediator starts with no command, firing adds a bullet
  to the engine's list, a frame advances the frame counter, and the constructor builds a
  map with one asteroid, leaving the settings as they are.
\<close>

definition ex_SpaceShip_init :: "ShipSprite \<Rightarrow> SpaceShip" where
  "ex_SpaceShip_init p = \<lparr>turn_rate = 0, thrust = 0, fire_bullet = False\<rparr>"

definition ex_fire_bullet ::
  "(nat, nat, unit) FuzzyAsteroidGame \<Rightarrow> (nat, nat, unit) FuzzyAsteroidGame" where
  "ex_fire_bullet g =
     g\<lparr>engine := (engine g)\<lparr>bullet_list := bullet_list (engine g) @ [\<lparr>state = 7\<rparr>]\<rparr>\<rparr>"

definition ex_on_update ::
  "real \<Rightarrow> (nat, nat, unit) FuzzyAsteroidGame \<Rightarrow> (nat, nat, unit) FuzzyAsteroidGame" where
  "ex_on_update delta_time g =
     g\<lparr>engine := (engine g)\<lparr>frame_count := Suc (frame_count (engine g))\<rparr>\<rparr>"

definition ex_engine :: "(nat, unit) AsteroidGame" where
  "ex_engine =
     \<lparr>frame_count = 0, get_size = (800, 600), asteroid_list = [\<lparr>state = 3\<rparr>],
      bullet_list = [], player_sprite = \<lparr>ShipSprite.turn_rate = 0, ShipSprite.thrust = 0\<rparr>,
      active_key_presses = [], other = ()\<rparr>"

definition ex_AsteroidGame_init ::
  "nat \<Rightarrow> unit \<Rightarrow> heap \<Rightarrow> (nat, unit) AsteroidGame \<times> heap" where
  "ex_AsteroidGame_init settings scenario h = (ex_engine, h)"

text \<open>A controller that counts its calls, turns, thrusts and fires.\<close>

definition ex_pilot :: "(nat, nat) controller_obj" where
  "ex_pilot =
     \<lparr>truth = (\<lambda>n. (Inr True, n)),
      actions_attr = Some (\<lambda>n ship d.
        (None, Suc n, ship\<lparr>turn_rate := 90, thrust := 1, fire_bullet := True\<rparr>)),
      inner = 0\<rparr>"

text \<open>A controller whose \<^verbatim>\<open>actions\<close> sets the thrust and then raises.\<close>

definition ex_faulty :: "(nat, nat) controller_obj" where
  "ex_faulty =
     \<lparr>truth = (\<lambda>n. (Inr True, n)),
      actions_attr = Some (\<lambda>n ship d.
        (Some (RuntimeError ''boom''), Suc n, ship\<lparr>thrust := 1\<rparr>)),
      inner = 0\<rparr>"

text \<open>
  A controller with \<^verbatim>\<open>actions\<close> whose truth value is false (say, a \<^verbatim>\<open>__len__\<close> that
  returns 0).
\<close>

definition ex_falsy :: "(nat, nat) controller_obj" where
  "ex_falsy =
     \<lparr>truth = (\<lambda>n. (Inr False, n)),
      actions_attr = Some (\<lambda>n ship d. (None, Suc n, ship\<lparr>thrust := 1\<rparr>)),
      inner = 0\<rparr>"

text \<open>
  A controller with \<^verbatim>\<open>actions\<close> whose \<^verbatim>\<open>__bool__\<close> counts how often it is asked, and
  answers true the first time only. Its \<^verbatim>\<open>actions\<close> sets the thrust.
\<close>

definition ex_once :: "(nat, nat) controller_obj" where
  "ex_once =
     \<lparr>truth = (\<lambda>n. (Inr (n = 0), Suc n)),
      actions_attr = Some (\<lambda>n ship d. (None, n, ship\<lparr>thrust := 1\<rparr>)),
      inner = 0\<rparr>"



definition ex_game :: "(nat, nat) controller_obj \<Rightarrow> (nat, nat, unit) FuzzyAsteroidGame" where
  "ex_game c = \<lparr>controller = Some c, engine = ex_engine, time_elapsed = 0\<rparr>"

text \<open>
  A run of the example engine: one frame, and the frame counter is the score. It handles
  no exception.
\<close>

definition ex_run_single_game :: "(nat, nat, unit) FuzzyAsteroidGame \<Rightarrow> exn + nat" where
  "ex_run_single_game g =
     (case on_update ex_SpaceShip_init ex_fire_bullet ex_on_update (1 / 60) g of
        Raised e g \<Rightarrow> Inl e
      | Returned g \<Rightarrow> Inr (frame_count (engine g)))"

text \<open>
  A settings dictionary that sets every key the training variant overrides the other way,
  and one key more.
\<close>

definition ex_settings :: dict where
  "ex_settings =
     [(''graphics_on'', PyBool True),
      (''sound_on'', PyBool True),
      (''real_time_multiplier'', PyInt 1),
      (''prints'', PyBool False),
      (''allow_key_presses'', PyBool True),
      (''lives'', PyInt 3)]"

section \<open>Properties\<close>

subsection \<open>Auxiliary facts\<close>

lemma is_Exception_simps:
  "is_Exception (ValueError m)" "is_Exception (TypeError m)" "is_Exception (AttributeError m)"
  "is_Exception (RuntimeError m)" "\<not> is_Exception KeyboardInterrupt"
  by (simp_all add: is_Exception_def)

lemma map_of_training_overrides:
  "map_of (dict_update d training_overrides) =
     (map_of d)(''sound_on'' \<mapsto> PyBool False, ''graphics_on'' \<mapsto> PyBool False,
       ''real_time_multiplier'' \<mapsto> PyInt 0, ''prints'' \<mapsto> PyBool True,
       ''allow_key_presses'' \<mapsto> PyBool False)"
  by (simp add: training_overrides_def update_conv')

lemma dict_update_training_overrides_nonempty: "dict_update d training_overrides \<noteq> []"
proof
  assume "dict_update d training_overrides = []"
  then have "map_of (dict_update d training_overrides) ''prints'' = None"
    by simp
  then show False
    by (simp add: map_of_training_overrides)
qed

lemma dict_update_empty_training_overrides:
  "dict_update [] training_overrides = training_overrides"
  by (simp add: training_overrides_def)

lemma settings_or_new_live:
  assumes "live s h" and "settings_or_new s h = (r, h0)"
  shows "r < length h0"
  using assms by (auto simp add: live_def settings_or_new_def split: option.splits if_splits)

text \<open>
  The trainer's constructor, with the two occurrences of line 110 and line 26 resolved:
  after the update the dictionary is not empty, so \<^verbatim>\<open>FuzzyAsteroidGame.__init__\<close>
  keeps it.
\<close>

lemma TrainerEnvironment_init_unfold:
  assumes "live s h" and "settings_or_new s h = (r, h0)"
  shows "TrainerEnvironment_init A c s scn h =
     (let h1 = h0[r := dict_update (h0 ! r) training_overrides] in
      case py_bool c of
        (Inl e, c') \<Rightarrow> (Inl e, h1)
      | (Inr b, c') \<Rightarrow>
          if \<not> b then
            (Inl (ValueError ''No controller object given to the FuzzyAsteroid() constructor''), h1)
          else if \<not> hasattr_actions c' then
            (Inl (TypeError (''Controller class given to FuzzyAsteroidGame doesn't have a method called'' @
                             ''``actions()`` which is used to control the Ship'')), h1)
          else (case A r scn h1 of (e, h2) \<Rightarrow>
                  (Inr \<lparr>controller = c', engine = e, time_elapsed = 0\<rparr>, h2)))"
proof -
  have r: "r < length h0"
    using assms by (rule settings_or_new_live)
  then have "(h0[r := dict_update (h0 ! r) training_overrides]) ! r \<noteq> []"
    by (simp add: dict_update_training_overrides_nonempty)
  then have "settings_or_new (Some r) (h0[r := dict_update (h0 ! r) training_overrides])
      = (r, h0[r := dict_update (h0 ! r) training_overrides])"
    by (simp add: settings_or_new_def)
  then show ?thesis
    using assms(2) by (simp add: TrainerEnvironment_init_def FuzzyAsteroidGame_init_def Let_def)
qed

lemma TrainerEnvironment_init_store:
  assumes "live s h" and "settings_or_new s h = (r, h0)"
    and "\<forall>r' scn' h'. snd (A r' scn' h') = h'"
  shows "snd (TrainerEnvironment_init A c s scn h)
     = h0[r := dict_update (h0 ! r) training_overrides]"
proof -
  define h1 where "h1 = h0[r := dict_update (h0 ! r) training_overrides]"
  obtain e h2 where A: "A r scn h1 = (e, h2)"
    by (cases "A r scn h1")
  from assms(3) have "snd (A r scn h1) = h1"
    by blast
  with A have "h2 = h1"
    by simp
  with A show ?thesis
    by (simp add: TrainerEnvironment_init_unfold [OF assms(1,2)] Let_def h1_def [symmetric]
        split: prod.splits sum.splits)
qed

text \<open>The attribute \<^verbatim>\<open>actions\<close> does not depend on the controller's state.\<close>

lemma hasattr_actions_py_bool: "hasattr_actions (snd (py_bool c)) = hasattr_actions c"
  by (cases c) (simp_all add: py_bool_def hasattr_actions_def split: prod.splits)

text \<open>
  Whatever block \<^verbatim>\<open>_timer_interface\<close> wraps, the number it stores is
  \<^verbatim>\<open>t1 - (t0 / 1E6)\<close>, and an exception of class \<^verbatim>\<open>Exception\<close> raised in the block
  does not leave it.
\<close>

lemma timer_interface_time_elapsed:
  "time_elapsed (outcome_state (timer_interface t0 t1 body g)) = t1 - t0 / 1000000"
  by (simp add: timer_interface_def split: outcome.splits)

lemma timer_interface_swallows:
  "body g = Raised e g' \<Longrightarrow> is_Exception e \<Longrightarrow>
   timer_interface t0 t1 body g = Returned (g'\<lparr>time_elapsed := t1 - t0 / 1000000\<rparr>)"
  by (simp add: timer_interface_def)

text \<open>
  Had the call of the controller been wrapped in it, the fault of the example controller
  would have stayed inside.
\<close>

lemma timer_interface_would_contain_fault:
  "timer_interface 0 1 (call_stored_controller ex_SpaceShip_init ex_fire_bullet)
       (ex_game ex_faulty)
     = Returned ((ex_game ex_faulty)
         \<lparr>controller := Some (ex_faulty\<lparr>inner := 1\<rparr>), time_elapsed := 1\<rparr>)"
  by (simp add: timer_interface_def call_stored_controller_def controller_block_def
      ex_game_def ex_engine_def ex_faulty_def is_Exception_simps)

subsection \<open>The snapshot\<close>

text \<open>
  Claim C8. The dictionary that \<^verbatim>\<open>data\<close> returns has its entry \<^verbatim>\<open>"bullets"\<close> built
  from \<^verbatim>\<open>self.asteroid_list\<close>: it is equal to the entry \<^verbatim>\<open>"asteroids"\<close>, it is the
  list of the asteroids' states, and it stays the same whatever bullets are alive.
\<close>

theorem data_bullets_from_asteroids:
  "bullets (data g) = asteroids (data g)
   \<and> bullets (data g) = map state (asteroid_list (engine g))
   \<and> data (g\<lparr>engine := (engine g)\<lparr>bullet_list := bs\<rparr>\<rparr>) = data g"
  by (simp add: data_def)

text \<open>
  Claim C2 asks for the states of the live bullets under \<^verbatim>\<open>"bullets"\<close>. In the example
  game after one shot, one bullet (state 7) and one asteroid (state 3) are alive, and the
  entry \<^verbatim>\<open>"bullets"\<close> of the snapshot is the asteroid's state: line 51 iterates over
  \<^verbatim>\<open>self.asteroid_list\<close>, as line 50 does.
\<close>

theorem data_misses_live_bullets:
  "bullet_list (engine (ex_fire_bullet (ex_game ex_pilot))) = [\<lparr>state = 7\<rparr>]
   \<and> bullets (data (ex_fire_bullet (ex_game ex_pilot))) = [3]
   \<and> bullets (data (ex_fire_bullet (ex_game ex_pilot)))
       \<noteq> map state (bullet_list (engine (ex_fire_bullet (ex_game ex_pilot))))"
  by (simp add: data_def ex_fire_bullet_def ex_game_def ex_engine_def)

subsection \<open>Faults of the controller and the timer\<close>

text \<open>
  Claim C1 says that an exception raised by \<^verbatim>\<open>actions\<close> is caught where the controller
  is called and that the frame goes on. In the example, \<^verbatim>\<open>actions\<close> sets the thrust and
  raises \<^verbatim>\<open>RuntimeError\<close>: the exception leaves \<^verbatim>\<open>on_update\<close>, the ship's thrust is
  not taken over and the engine's \<^verbatim>\<open>on_update\<close> does not run (the frame counter stays
  0). With a run that calls \<^verbatim>\<open>on_update\<close> and handles no exception itself, the
  exception leaves \<^verbatim>\<open>evaluate_controller\<close> as well. The handler that would swallow it,
  \<^verbatim>\<open>_timer_interface\<close>, is never entered.
\<close>

theorem controller_fault_leaves_on_update:
  "on_update ex_SpaceShip_init ex_fire_bullet ex_on_update (1 / 60) (ex_game ex_faulty)
     = Raised (RuntimeError ''boom'')
         ((ex_game ex_faulty)\<lparr>controller := Some (ex_faulty\<lparr>inner := 1\<rparr>)\<rparr>)
   \<and> evaluate_controller ex_AsteroidGame_init ex_run_single_game (Some ex_faulty) None () []
     = (Inl (RuntimeError ''boom''), [[]])"
  by (simp add: on_update_def call_stored_controller_def controller_block_def ex_game_def
      ex_engine_def ex_faulty_def evaluate_controller_def FuzzyAsteroidGame_init_def
      settings_or_new_def py_bool_def hasattr_actions_def ex_AsteroidGame_init_def
      ex_run_single_game_def)

text \<open>
  Claim C7 says that \<^verbatim>\<open>time_elapsed\<close> is the stop time minus the start time. With the
  clock at 1000000 s before the call and 1000001 s after it, the call took 1 s and the
  value stored is 1000000: line 97 computes \<^verbatim>\<open>t1 - t0 / float(1E6)\<close>, where the division
  binds tighter than the subtraction.
\<close>

theorem time_elapsed_is_not_the_duration:
  "time_elapsed (outcome_state (timer_interface 1000000 1000001
       (call_stored_controller ex_SpaceShip_init ex_fire_bullet) (ex_game ex_pilot))) = 1000000
   \<and> (1000001 :: real) - 1000000 = 1"
  by (simp add: timer_interface_def call_stored_controller_def controller_block_def ex_game_def
      ex_engine_def ex_pilot_def ex_fire_bullet_def ex_SpaceShip_init_def)

subsection \<open>The frame\<close>

text \<open>
  Claim C4. In a frame in which a key press is pending (\<^verbatim>\<open>self.active_key_presses\<close> is
  not empty), \<^verbatim>\<open>on_update\<close> does not call the controller: the frame is the engine's
  \<^verbatim>\<open>on_update\<close> on the game as it stands, whatever the controller is.
\<close>

theorem on_update_key_presses_skip_controller:
  "active_key_presses (engine g) \<noteq> [] \<Longrightarrow> on_update S F U dt g = Returned (U dt g)"
  by (simp add: on_update_def)

text \<open>
  With one key pressed, the counting controller is still at 0 calls after the frame, and
  the ship has no command of its.
\<close>

theorem on_update_key_presses_skip_controller_witness:
  "active_key_presses
       (engine ((ex_game ex_pilot)\<lparr>engine := ex_engine\<lparr>active_key_presses := [32]\<rparr>\<rparr>)) \<noteq> []
   \<and> on_update ex_SpaceShip_init ex_fire_bullet ex_on_update (1 / 60)
        ((ex_game ex_pilot)\<lparr>engine := ex_engine\<lparr>active_key_presses := [32]\<rparr>\<rparr>)
      = Returned \<lparr>controller = Some ex_pilot,
                  engine = ex_engine\<lparr>active_key_presses := [32], frame_count := 1\<rparr>,
                  time_elapsed = 0\<rparr>"
  using on_update_key_presses_skip_controller
    [of "(ex_game ex_pilot)\<lparr>engine := ex_engine\<lparr>active_key_presses := [32]\<rparr>\<rparr>"
        ex_SpaceShip_init ex_fire_bullet ex_on_update "1 / 60"]
  by (simp add: ex_game_def ex_engine_def ex_on_update_def)

text \<open>
  Claim C5. In a frame in which the controller is called (no key press pending, the
  guard's test of the controller true, leaving the controller's state as \<open>c1\<close>) and its
  \<^verbatim>\<open>actions\<close> returns, leaving the ship as \<open>ship\<close>: the player's sprite gets the ship's
  turn rate and thrust, the engine's \<^verbatim>\<open>fire_bullet\<close> runs once if the ship's flag is set
  and not at all otherwise, and only then the engine advances the frame.
\<close>

theorem on_update_applies_ship_commands:
  assumes "active_key_presses (engine g) = []"
    and "controller g = Some c" and "truth c (inner c) = (Inr True, c1)"
    and "actions_attr c = Some act"
    and "act c1 (S (player_sprite (engine g))) (data g) = (None, c', ship)"
  shows "on_update S F U dt g =
     Returned (U dt ((F ^^ (if fire_bullet ship then 1 else 0))
       (g\<lparr>controller := Some (c\<lparr>inner := c'\<rparr>),
          engine := (engine g)\<lparr>player_sprite := (player_sprite (engine g))
            \<lparr>ShipSprite.turn_rate := SpaceShip.turn_rate ship,
             ShipSprite.thrust := SpaceShip.thrust ship\<rparr>\<rparr>\<rparr>)))"
proof -
  have "data (g\<lparr>controller := Some (c\<lparr>inner := c1\<rparr>)\<rparr>) = data g"
    by (simp add: data_def)
  with assms show ?thesis
    by (simp add: on_update_def call_stored_controller_def controller_block_def Let_def)
qed

text \<open>
  The counting controller asks for turn rate 90, thrust 1 and a shot: after the frame the
  sprite has both, one bullet is alive, and the frame counter is 1.
\<close>

theorem on_update_applies_ship_commands_witness:
  "on_update ex_SpaceShip_init ex_fire_bullet ex_on_update (1 / 60) (ex_game ex_pilot) =
     Returned
       \<lparr>controller = Some (ex_pilot\<lparr>inner := 1\<rparr>),
        engine = ex_engine
          \<lparr>player_sprite := \<lparr>ShipSprite.turn_rate = 90, ShipSprite.thrust = 1\<rparr>,
           bullet_list := [\<lparr>state = 7\<rparr>],
           frame_count := 1\<rparr>,
        time_elapsed = 0\<rparr>"
  using on_update_applies_ship_commands
    [of "ex_game ex_pilot" ex_pilot 0
        "\<lambda>n ship d. (None, Suc n, ship\<lparr>turn_rate := 90, thrust := 1, fire_bullet := True\<rparr>)"
        ex_SpaceShip_init 1 "\<lparr>turn_rate = 90, thrust = 1, fire_bullet = True\<rparr>"
        ex_fire_bullet ex_on_update "1 / 60"]
  by (simp add: ex_game_def ex_pilot_def ex_engine_def ex_SpaceShip_init_def
      ex_fire_bullet_def ex_on_update_def)

subsection \<open>Construction\<close>




text \<open>
  Claim C10, amended. The constructor raises \<^verbatim>\<open>ValueError\<close> for every controller that
  is \<^verbatim>\<open>None\<close> or whose truth value comes out false on line 32, also one that has
  \<^verbatim>\<open>actions\<close>; it builds a game only for a controller whose truth value came out true
  there and that has \<^verbatim>\<open>actions\<close>, and the game holds that controller as the test left
  it. The guard on line 58 computes the truth value again in every call of
  \<^verbatim>\<open>call_stored_controller\<close>, in any state \<open>g'\<close> of the game: when it comes out true the
  guarded block runs, when it comes out false the method returns at once, and when there
  is no controller it returns at once. A controller whose truth value is always true and
  whose state the test leaves alone (any object without \<^verbatim>\<open>__bool__\<close> and \<^verbatim>\<open>__len__\<close>)
  is never skipped.
\<close>

theorem falsy_controller_rejected_and_guard:
  "(fst (py_bool c) = Inr False \<longrightarrow>
      fst (FuzzyAsteroidGame_init A c s scn h) =
        Inl (ValueError ''No controller object given to the FuzzyAsteroid() constructor''))
   \<and> (\<forall>g. fst (FuzzyAsteroidGame_init A c s scn h) = Inr g \<longrightarrow>
          fst (py_bool c) = Inr True \<and> hasattr_actions c \<and> controller g = snd (py_bool c))
   \<and> (\<forall>ob c'. controller g' = Some ob \<and> truth ob (inner ob) = (Inr True, c') \<longrightarrow>
          call_stored_controller S F g' =
            controller_block S F (ob\<lparr>inner := c'\<rparr>) (g'\<lparr>controller := Some (ob\<lparr>inner := c'\<rparr>)\<rparr>))
   \<and> (\<forall>ob c'. controller g' = Some ob \<and> truth ob (inner ob) = (Inr False, c') \<longrightarrow>
          call_stored_controller S F g' = Returned (g'\<lparr>controller := Some (ob\<lparr>inner := c'\<rparr>)\<rparr>))
   \<and> (controller g' = None \<longrightarrow> call_stored_controller S F g' = Returned g')
   \<and> (\<forall>ob. controller g' = Some ob \<and> (\<forall>x. truth ob x = (Inr True, x)) \<longrightarrow>
          call_stored_controller S F g' = controller_block S F ob g')"
proof -
  obtain b c' where p: "py_bool c = (b, c')"
    by (cases "py_bool c")
  have h: "hasattr_actions c' = hasattr_actions c"
    using hasattr_actions_py_bool [of c] p by simp
  have 1: "fst (FuzzyAsteroidGame_init A c s scn h) =
      Inl (ValueError ''No controller object given to the FuzzyAsteroid() constructor'')"
    if "fst (py_bool c) = Inr False"
    using that p by (simp add: FuzzyAsteroidGame_init_def split: prod.splits)
  have 2: "fst (py_bool c) = Inr True \<and> hasattr_actions c \<and> controller g = snd (py_bool c)"
    if "fst (FuzzyAsteroidGame_init A c s scn h) = Inr g" for g
    using that p h
    by (cases b) (auto simp add: FuzzyAsteroidGame_init_def split: prod.splits if_splits)
  have 3: "call_stored_controller S F g' =
      controller_block S F (ob\<lparr>inner := x\<rparr>) (g'\<lparr>controller := Some (ob\<lparr>inner := x\<rparr>)\<rparr>)"
    if "controller g' = Some ob" "truth ob (inner ob) = (Inr True, x)" for ob x
    using that by (simp add: call_stored_controller_def Let_def)
  have 4: "call_stored_controller S F g' = Returned (g'\<lparr>controller := Some (ob\<lparr>inner := x\<rparr>)\<rparr>)"
    if "controller g' = Some ob" "truth ob (inner ob) = (Inr False, x)" for ob x
    using that by (simp add: call_stored_controller_def Let_def)
  have 5: "call_stored_controller S F g' = Returned g'" if "controller g' = None"
    using that by (simp add: call_stored_controller_def)
  have 6: "call_stored_controller S F g' = controller_block S F ob g'"
    if "controller g' = Some ob" "\<forall>x. truth ob x = (Inr True, x)" for ob
  proof -
    from that(2) have "truth ob (inner ob) = (Inr True, inner ob)"
      by blast
    with that(1) have "call_stored_controller S F g' =
        controller_block S F (ob\<lparr>inner := inner ob\<rparr>)
          (g'\<lparr>controller := Some (ob\<lparr>inner := inner ob\<rparr>)\<rparr>)"
      by (rule 3)
    moreover have "g'\<lparr>controller := Some ob\<rparr> = g'"
      using that(1) by simp
    ultimately show ?thesis
      by simp
  qed
  from 1 2 3 4 5 6 show ?thesis
    by blast
qed

text \<open>
  A falsy controller with \<^verbatim>\<open>actions\<close> is rejected; the counting controller is accepted
  and its block runs; in a game that holds the falsy controller, or none, the guard
  returns at once.
\<close>

theorem falsy_controller_rejected_and_guard_witness:
  "fst (py_bool (Some ex_falsy)) = Inr False \<and> hasattr_actions (Some ex_falsy)
   \<and> fst (FuzzyAsteroidGame_init ex_AsteroidGame_init (Some ex_falsy) None () []) =
        Inl (ValueError ''No controller object given to the FuzzyAsteroid() constructor'')
   \<and> fst (FuzzyAsteroidGame_init ex_AsteroidGame_init (Some ex_pilot) None () []) =
        Inr (ex_game ex_pilot)
   \<and> fst (py_bool (Some ex_pilot)) = Inr True
   \<and> (\<forall>x. truth ex_pilot x = (Inr True, x))
   \<and> call_stored_controller ex_SpaceShip_init ex_fire_bullet (ex_game ex_pilot)
       = controller_block ex_SpaceShip_init ex_fire_bullet ex_pilot (ex_game ex_pilot)
   \<and> call_stored_controller ex_SpaceShip_init ex_fire_bullet (ex_game ex_falsy)
       = Returned (ex_game ex_falsy)
   \<and> call_stored_controller ex_SpaceShip_init ex_fire_bullet
        ((ex_game ex_pilot)\<lparr>controller := None\<rparr>)
       = Returned ((ex_game ex_pilot)\<lparr>controller := None\<rparr>)"
proof -
  have a: "fst (py_bool (Some ex_falsy)) = Inr False" "hasattr_actions (Some ex_falsy)"
    by (simp_all add: py_bool_def hasattr_actions_def ex_falsy_def)
  have b: "fst (FuzzyAsteroidGame_init ex_AsteroidGame_init (Some ex_pilot) None () []) =
        Inr (ex_game ex_pilot)"
    by (simp add: FuzzyAsteroidGame_init_def settings_or_new_def py_bool_def
        hasattr_actions_def ex_pilot_def ex_AsteroidGame_init_def ex_game_def)
  have c: "controller (ex_game ex_falsy) = Some ex_falsy"
    "truth ex_falsy (inner ex_falsy) = (Inr False, 0)"
    "(ex_game ex_falsy)\<lparr>controller := Some (ex_falsy\<lparr>inner := 0\<rparr>)\<rparr> = ex_game ex_falsy"
    by (simp_all add: ex_game_def ex_falsy_def)
  have d: "controller (ex_game ex_pilot) = Some ex_pilot"
    "\<forall>x. truth ex_pilot x = (Inr True, x)"
    by (simp_all add: ex_game_def ex_pilot_def)
  have e: "controller ((ex_game ex_pilot)\<lparr>controller := None\<rparr>) = None"
    by simp
  note t1 = falsy_controller_rejected_and_guard
    [where c = "Some ex_falsy" and A = ex_AsteroidGame_init and s = None and scn = "()"
       and h = "[]" and g' = "ex_game ex_falsy" and S = ex_SpaceShip_init
       and F = ex_fire_bullet]
  note t2 = falsy_controller_rejected_and_guard
    [where c = "Some ex_pilot" and A = ex_AsteroidGame_init and s = None and scn = "()"
       and h = "[]" and g' = "ex_game ex_pilot" and S = ex_SpaceShip_init
       and F = ex_fire_bullet]
  note t3 = falsy_controller_rejected_and_guard
    [where c = "Some ex_pilot" and A = ex_AsteroidGame_init and s = None and scn = "()"
       and h = "[]" and g' = "(ex_game ex_pilot)\<lparr>controller := None\<rparr>"
       and S = ex_SpaceShip_init and F = ex_fire_bullet]
  from t1 a(1)
  have 1: "fst (FuzzyAsteroidGame_init ex_AsteroidGame_init (Some ex_falsy) None () []) =
        Inl (ValueError ''No controller object given to the FuzzyAsteroid() constructor'')"
    by blast
  from t1 c(1,2)
  have "call_stored_controller ex_SpaceShip_init ex_fire_bullet (ex_game ex_falsy)
       = Returned ((ex_game ex_falsy)\<lparr>controller := Some (ex_falsy\<lparr>inner := 0\<rparr>)\<rparr>)"
    by blast
  with c(3)
  have 2: "call_stored_controller ex_SpaceShip_init ex_fire_bullet (ex_game ex_falsy)
       = Returned (ex_game ex_falsy)"
    by simp
  from t2 b have 3: "fst (py_bool (Some ex_pilot)) = Inr True"
    by blast
  from t2 d
  have 4: "call_stored_controller ex_SpaceShip_init ex_fire_bullet (ex_game ex_pilot)
       = controller_block ex_SpaceShip_init ex_fire_bullet ex_pilot (ex_game ex_pilot)"
    by blast
  from t3 e
  have 5: "call_stored_controller ex_SpaceShip_init ex_fire_bullet
        ((ex_game ex_pilot)\<lparr>controller := None\<rparr>)
       = Returned ((ex_game ex_pilot)\<lparr>controller := None\<rparr>)"
    by blast
  from a b d(2) 1 2 3 4 5 show ?thesis
    by blast
qed

text \<open>
  Claim C10 as stated fails: it concludes that the controller of a game that was built is
  truthy ever after and that the guard never skips it. The controller \<open>ex_once\<close> has
  \<^verbatim>\<open>actions\<close>, and its truth value is true when line 32 asks for it, so the game is
  built. In the first frame line 58 asks again, the answer is false, and
  \<^verbatim>\<open>call_stored_controller\<close> returns at once: \<^verbatim>\<open>actions\<close> has not run, the sprite
  has no thrust.
\<close>

theorem guard_skips_constructed_controller_counterexample:
  "hasattr_actions (Some ex_once)
   \<and> FuzzyAsteroidGame_init ex_AsteroidGame_init (Some ex_once) None () []
     = (Inr \<lparr>controller = Some (ex_once\<lparr>inner := 1\<rparr>), engine = ex_engine,
             time_elapsed = 0\<rparr>,
        [[]])
   \<and> call_stored_controller ex_SpaceShip_init ex_fire_bullet
        \<lparr>controller = Some (ex_once\<lparr>inner := 1\<rparr>), engine = ex_engine, time_elapsed = 0\<rparr>
     = Returned
         \<lparr>controller = Some (ex_once\<lparr>inner := 2\<rparr>), engine = ex_engine, time_elapsed = 0\<rparr>"
  by (simp add: FuzzyAsteroidGame_init_def settings_or_new_def py_bool_def hasattr_actions_def
      ex_once_def ex_AsteroidGame_init_def call_stored_controller_def)

subsection \<open>The training variant\<close>

text \<open>
  Claim C6. Whatever settings the caller supplies (none, an empty dictionary, or one that
  sets the keys otherwise), a \<^verbatim>\<open>TrainerEnvironment\<close> built with a usable controller
  hands the engine's constructor a dictionary in which \<^verbatim>\<open>graphics_on\<close> and
  \<^verbatim>\<open>sound_on\<close> are \<^verbatim>\<open>False\<close>, \<^verbatim>\<open>real_time_multiplier\<close> is 0 and
  \<^verbatim>\<open>allow_key_presses\<close> is \<^verbatim>\<open>False\<close>; its handlers \<^verbatim>\<open>on_key_press\<close> and
  \<^verbatim>\<open>on_key_release\<close> leave the game as it is.
\<close>

theorem TrainerEnvironment_forces_settings:
  assumes "live s h" and "fst (py_bool c) = Inr True" and "hasattr_actions c"
  shows "\<exists>r h1. r < length h1
     \<and> map_of (h1 ! r) ''graphics_on'' = Some (PyBool False)
     \<and> map_of (h1 ! r) ''sound_on'' = Some (PyBool False)
     \<and> map_of (h1 ! r) ''real_time_multiplier'' = Some (PyInt 0)
     \<and> map_of (h1 ! r) ''allow_key_presses'' = Some (PyBool False)
     \<and> TrainerEnvironment_init A c s scn h =
         (case A r scn h1 of (e, h2) \<Rightarrow>
            (Inr \<lparr>controller = snd (py_bool c), engine = e, time_elapsed = 0\<rparr>, h2))
     \<and> TrainerEnvironment_on_key_press symbol modifiers g = g
     \<and> TrainerEnvironment_on_key_release symbol modifiers g = g"
proof -
  obtain r h0 where s: "settings_or_new s h = (r, h0)"
    by (cases "settings_or_new s h")
  obtain c' where p: "py_bool c = (Inr True, c')"
    using assms(2) by (cases "py_bool c") simp
  have a: "hasattr_actions c'"
    using hasattr_actions_py_bool [of c] p assms(3) by simp
  define h1 where "h1 = h0[r := dict_update (h0 ! r) training_overrides]"
  have r: "r < length h0"
    using assms(1) s by (rule settings_or_new_live)
  then have d: "h1 ! r = dict_update (h0 ! r) training_overrides"
    by (simp add: h1_def)
  have "TrainerEnvironment_init A c s scn h =
      (case A r scn h1 of (e, h2) \<Rightarrow>
         (Inr \<lparr>controller = snd (py_bool c), engine = e, time_elapsed = 0\<rparr>, h2))"
    using a by (simp add: TrainerEnvironment_init_unfold [OF assms(1) s] h1_def p)
  moreover have "r < length h1"
    using r by (simp add: h1_def)
  ultimately show ?thesis
    by (intro exI [of _ r] exI [of _ h1])
      (simp add: d map_of_training_overrides TrainerEnvironment_on_key_press_def
        TrainerEnvironment_on_key_release_def)
qed

text \<open>
  The caller's dictionary switches graphics, sound and key presses on and sets the
  multiplier to 1: the game is built, and the dictionary holds the forced values, its key
  \<^verbatim>\<open>lives\<close> as before.
\<close>

theorem TrainerEnvironment_forces_settings_witness:
  "live (Some 0) [ex_settings] \<and> fst (py_bool (Some ex_pilot)) = Inr True
   \<and> hasattr_actions (Some ex_pilot)
   \<and> TrainerEnvironment_init ex_AsteroidGame_init (Some ex_pilot) (Some 0) () [ex_settings] =
       (Inr \<lparr>controller = Some ex_pilot, engine = ex_engine, time_elapsed = 0\<rparr>,
        [[(''graphics_on'', PyBool False), (''sound_on'', PyBool False),
          (''real_time_multiplier'', PyInt 0), (''prints'', PyBool True),
          (''allow_key_presses'', PyBool False), (''lives'', PyInt 3)]])
   \<and> TrainerEnvironment_on_key_press 32 0 (ex_game ex_pilot) = ex_game ex_pilot
   \<and> TrainerEnvironment_on_key_release 32 0 (ex_game ex_pilot) = ex_game ex_pilot"
proof -
  have a: "live (Some 0) [ex_settings]"
    by (simp add: live_def)
  have b: "fst (py_bool (Some ex_pilot)) = Inr True"
    by (simp add: py_bool_def ex_pilot_def)
  have c: "hasattr_actions (Some ex_pilot)"
    by (simp add: hasattr_actions_def ex_pilot_def)
  have p: "snd (py_bool (Some ex_pilot)) = Some ex_pilot"
    by (simp add: py_bool_def ex_pilot_def)
  obtain r h1 where
    "TrainerEnvironment_init ex_AsteroidGame_init (Some ex_pilot) (Some 0) () [ex_settings] =
       (case ex_AsteroidGame_init r () h1 of (e, h2) \<Rightarrow>
          (Inr \<lparr>controller = snd (py_bool (Some ex_pilot)), engine = e, time_elapsed = 0\<rparr>, h2))"
    and "TrainerEnvironment_on_key_press 32 0 (ex_game ex_pilot) = ex_game ex_pilot"
    and "TrainerEnvironment_on_key_release 32 0 (ex_game ex_pilot) = ex_game ex_pilot"
    using TrainerEnvironment_forces_settings
      [OF a b c, of ex_AsteroidGame_init "()" 32 0 "ex_game ex_pilot"]
    by blast
  moreover
  have "snd (TrainerEnvironment_init ex_AsteroidGame_init (Some ex_pilot) (Some 0) () [ex_settings])
     = [[(''graphics_on'', PyBool False), (''sound_on'', PyBool False),
          (''real_time_multiplier'', PyInt 0), (''prints'', PyBool True),
          (''allow_key_presses'', PyBool False), (''lives'', PyInt 3)]]"
    by (simp add: TrainerEnvironment_init_def FuzzyAsteroidGame_init_def settings_or_new_def
        ex_settings_def training_overrides_def py_bool_def hasattr_actions_def ex_pilot_def
        ex_AsteroidGame_init_def)
  ultimately show ?thesis
    using a b c p by (auto simp add: ex_AsteroidGame_init_def)
qed

text \<open>
  Claim C9, amended. Let the engine's constructor leave the store as it finds it. When
  the caller supplies a dictionary that is not empty (at address \<open>r\<close>),
  \<^verbatim>\<open>TrainerEnvironment.__init__\<close> changes the store at \<open>r\<close> and nowhere else, and the
  dictionary there is the old one with the five keys \<^verbatim>\<open>sound_on\<close>, \<^verbatim>\<open>graphics_on\<close>,
  \<^verbatim>\<open>real_time_multiplier\<close>, \<^verbatim>\<open>prints\<close> and \<^verbatim>\<open>allow_key_presses\<close> set to
  \<^verbatim>\<open>False\<close>, \<^verbatim>\<open>False\<close>, 0, \<^verbatim>\<open>True\<close> and \<^verbatim>\<open>False\<close>, every other key as it was.
  When the caller supplies an empty dictionary, or \<^verbatim>\<open>None\<close>, everything the caller had
  in the store is as before, and the store has one dictionary more, which holds exactly
  these five keys with these values. Both hold whether or not the controller is accepted.
\<close>

theorem TrainerEnvironment_init_settings_in_place:
  assumes "live s h" and "\<forall>r' scn' h'. snd (A r' scn' h') = h'"
  shows "(\<forall>r. s = Some r \<and> h ! r \<noteq> [] \<longrightarrow>
      (\<exists>d. snd (TrainerEnvironment_init A c s scn h) = h[r := d]
        \<and> map_of d = (map_of (h ! r))
             (''sound_on'' \<mapsto> PyBool False, ''graphics_on'' \<mapsto> PyBool False,
              ''real_time_multiplier'' \<mapsto> PyInt 0, ''prints'' \<mapsto> PyBool True,
              ''allow_key_presses'' \<mapsto> PyBool False)))
   \<and> (s = None \<or> (\<exists>r. s = Some r \<and> h ! r = []) \<longrightarrow>
      snd (TrainerEnvironment_init A c s scn h) =
        h @ [[(''sound_on'', PyBool False), (''graphics_on'', PyBool False),
              (''real_time_multiplier'', PyInt 0), (''prints'', PyBool True),
              (''allow_key_presses'', PyBool False)]])"
proof -
  have 1: "\<exists>d. snd (TrainerEnvironment_init A c s scn h) = h[r := d]
        \<and> map_of d = (map_of (h ! r))
             (''sound_on'' \<mapsto> PyBool False, ''graphics_on'' \<mapsto> PyBool False,
              ''real_time_multiplier'' \<mapsto> PyInt 0, ''prints'' \<mapsto> PyBool True,
              ''allow_key_presses'' \<mapsto> PyBool False)"
    if "s = Some r" "h ! r \<noteq> []" for r
  proof -
    from that have "settings_or_new s h = (r, h)"
      by (simp add: settings_or_new_def)
    then have "snd (TrainerEnvironment_init A c s scn h)
        = h[r := dict_update (h ! r) training_overrides]"
      using assms by (simp add: TrainerEnvironment_init_store)
    then show ?thesis
      using map_of_training_overrides [of "h ! r"] by blast
  qed
  have 2: "snd (TrainerEnvironment_init A c s scn h) =
        h @ [[(''sound_on'', PyBool False), (''graphics_on'', PyBool False),
              (''real_time_multiplier'', PyInt 0), (''prints'', PyBool True),
              (''allow_key_presses'', PyBool False)]]"
    if "s = None \<or> (\<exists>r. s = Some r \<and> h ! r = [])"
  proof -
    from that have "settings_or_new s h = (length h, h @ [[]])"
      by (auto simp add: settings_or_new_def)
    then have "snd (TrainerEnvironment_init A c s scn h)
        = (h @ [[]])[length h := dict_update ((h @ [[]]) ! length h) training_overrides]"
      using assms by (simp add: TrainerEnvironment_init_store)
    then have "snd (TrainerEnvironment_init A c s scn h) = h @ [training_overrides]"
      by (simp add: dict_update_empty_training_overrides)
    then show ?thesis
      by (simp add: training_overrides_def)
  qed
  from 1 2 show ?thesis
    by blast
qed

text \<open>
  A dictionary with six keys at address 0 is updated where it is and keeps its key
  \<^verbatim>\<open>lives\<close>. With an empty dictionary at address 0 and another one at address 1, both
  are as before and the five keys are in a new dictionary at address 2; the same when no
  settings are supplied.
\<close>

theorem TrainerEnvironment_init_settings_in_place_witness:
  "live (Some 0) [ex_settings]
   \<and> (\<forall>r' scn' h'. snd (ex_AsteroidGame_init r' scn' h') = h')
   \<and> [ex_settings] ! 0 \<noteq> []
   \<and> (\<exists>d. snd (TrainerEnvironment_init ex_AsteroidGame_init (Some ex_pilot) (Some 0) ()
                 [ex_settings])
            = [ex_settings][0 := d]
        \<and> map_of d = (map_of ([ex_settings] ! 0))
             (''sound_on'' \<mapsto> PyBool False, ''graphics_on'' \<mapsto> PyBool False,
              ''real_time_multiplier'' \<mapsto> PyInt 0, ''prints'' \<mapsto> PyBool True,
              ''allow_key_presses'' \<mapsto> PyBool False)
        \<and> map_of d ''lives'' = Some (PyInt 3))
   \<and> live (Some 0) [[], ex_settings] \<and> [[], ex_settings] ! 0 = []
   \<and> snd (TrainerEnvironment_init ex_AsteroidGame_init (Some ex_pilot) (Some 0) ()
            [[], ex_settings])
      = [[], ex_settings,
         [(''sound_on'', PyBool False), (''graphics_on'', PyBool False),
          (''real_time_multiplier'', PyInt 0), (''prints'', PyBool True),
          (''allow_key_presses'', PyBool False)]]
   \<and> live None [[], ex_settings]
   \<and> snd (TrainerEnvironment_init ex_AsteroidGame_init (Some ex_pilot) None ()
            [[], ex_settings])
      = [[], ex_settings,
         [(''sound_on'', PyBool False), (''graphics_on'', PyBool False),
          (''real_time_multiplier'', PyInt 0), (''prints'', PyBool True),
          (''allow_key_presses'', PyBool False)]]"
proof -
  have a: "live (Some 0) [ex_settings]" and a': "live (Some 0) [[], ex_settings]"
    and a'': "live None [[], ex_settings]"
    by (simp_all add: live_def)
  have b: "\<forall>r' scn' h'. snd (ex_AsteroidGame_init r' scn' h') = h'"
    by (simp add: ex_AsteroidGame_init_def)
  have n: "[ex_settings] ! 0 \<noteq> []"
    by (simp add: ex_settings_def)
  have e: "[[], ex_settings] ! 0 = []"
    by simp
  note t1 = TrainerEnvironment_init_settings_in_place
    [OF a b, where c = "Some ex_pilot" and scn = "()"]
  note t2 = TrainerEnvironment_init_settings_in_place
    [OF a' b, where c = "Some ex_pilot" and scn = "()"]
  note t3 = TrainerEnvironment_init_settings_in_place
    [OF a'' b, where c = "Some ex_pilot" and scn = "()"]
  from t1 n obtain d where
    d: "snd (TrainerEnvironment_init ex_AsteroidGame_init (Some ex_pilot) (Some 0) ()
              [ex_settings])
          = [ex_settings][0 := d]"
      "map_of d = (map_of ([ex_settings] ! 0))
             (''sound_on'' \<mapsto> PyBool False, ''graphics_on'' \<mapsto> PyBool False,
              ''real_time_multiplier'' \<mapsto> PyInt 0, ''prints'' \<mapsto> PyBool True,
              ''allow_key_presses'' \<mapsto> PyBool False)"
    by blast
  have l: "map_of d ''lives'' = Some (PyInt 3)"
    by (simp add: d(2) ex_settings_def)
  from t2 e
  have 2: "snd (TrainerEnvironment_init ex_AsteroidGame_init (Some ex_pilot) (Some 0) ()
            [[], ex_settings])
      = [[], ex_settings] @
        [[(''sound_on'', PyBool False), (''graphics_on'', PyBool False),
          (''real_time_multiplier'', PyInt 0), (''prints'', PyBool True),
          (''allow_key_presses'', PyBool False)]]"
    by blast
  from t3
  have 3: "snd (TrainerEnvironment_init ex_AsteroidGame_init (Some ex_pilot) None ()
            [[], ex_settings])
      = [[], ex_settings] @
        [[(''sound_on'', PyBool False), (''graphics_on'', PyBool False),
          (''real_time_multiplier'', PyInt 0), (''prints'', PyBool True),
          (''allow_key_presses'', PyBool False)]]"
    by blast
  from 2 3 a a' a'' b n e d l show ?thesis
    by auto
qed

text \<open>
  Claim C9 as stated fails: it says that the constructor writes the five keys into the
  dictionary the caller supplies. A caller who supplies an empty dictionary (at address
  0) finds it empty afterwards: line 110 takes it for no settings at all and binds a new
  dictionary (at address 1), and that one gets the five keys.
\<close>

theorem TrainerEnvironment_init_empty_settings_counterexample:
  "TrainerEnvironment_init ex_AsteroidGame_init (Some ex_pilot) (Some 0) () [[]]
     = (Inr (ex_game ex_pilot), [[], training_overrides])"
  by (simp add: TrainerEnvironment_init_def FuzzyAsteroidGame_init_def settings_or_new_def
      training_overrides_def py_bool_def hasattr_actions_def ex_pilot_def
      ex_AsteroidGame_init_def ex_game_def)

end
